theory Spec2Isabelle
  imports Main "HOL-Library.Word" "HOL-Library.Multiset"
begin

section \<open>JavaScript strings\<close>

text \<open>
  A JavaScript string is a sequence of 16-bit code units. String literals of the source
  are written \<open>str ''...''\<close>; a code unit beyond ASCII is written as its number.
\<close>

type_synonym code_unit = "16 word"
type_synonym jsstring = "code_unit list"

definition str :: "string \<Rightarrow> jsstring" where
  "str s = map (\<lambda>c. of_nat (of_char c)) s"

text \<open>
  \<open>String.prototype.trim\<close> removes WhiteSpace and LineTerminator code points from both
  ends: TAB, LF, VT, FF, CR, SP, NBSP, U+1680, U+2000 to U+200A, U+2028, U+2029, U+202F,
  U+205F, U+3000 and U+FEFF.
\<close>

definition isWhiteSpace :: "code_unit \<Rightarrow> bool" where
  "isWhiteSpace c =
     (c = 0x09 \<or> c = 0x0A \<or> c = 0x0B \<or> c = 0x0C \<or> c = 0x0D \<or> c = 0x20 \<or> c = 0xA0 \<or>
      c = 0x1680 \<or> (0x2000 \<le> c \<and> c \<le> 0x200A) \<or> c = 0x2028 \<or> c = 0x2029 \<or>
      c = 0x202F \<or> c = 0x205F \<or> c = 0x3000 \<or> c = 0xFEFF)"

definition trim :: "jsstring \<Rightarrow> jsstring" where
  "trim s = rev (dropWhile isWhiteSpace (rev (dropWhile isWhiteSpace s)))"

definition startsWith :: "jsstring \<Rightarrow> jsstring \<Rightarrow> bool" where
  "startsWith s p = (take (length p) s = p)"

definition endsWith :: "jsstring \<Rightarrow> jsstring \<Rightarrow> bool" where
  "endsWith s p = (length p \<le> length s \<and> drop (length s - length p) s = p)"

text \<open>
  \<open>s.slice(start, end)\<close>: a negative index counts from the end of the string, every index
  is clamped to the string, and an empty range gives the empty string. \<open>None\<close> is an
  omitted \<open>end\<close>.
\<close>

definition slice :: "jsstring \<Rightarrow> int \<Rightarrow> int option \<Rightarrow> jsstring" where
  "slice s start fin =
     (let len = int (length s);
          from = (if start < 0 then max (len + start) 0 else min start len);
          e = (case fin of None \<Rightarrow> len | Some e \<Rightarrow> e);
          to = (if e < 0 then max (len + e) 0 else min e len)
      in take (nat (to - from)) (drop (nat from) s))"

text \<open>
  \<open>s.indexOf(p)\<close> is the first position at which \<open>p\<close> occurs in \<open>s\<close>, \<open>s.lastIndexOf(p)\<close>
  the last one; both are \<open>-1\<close> when \<open>p\<close> does not occur. The second argument of the
  helpers is the position of the scanned suffix in the whole string.
\<close>

fun indexOf_from :: "jsstring \<Rightarrow> nat \<Rightarrow> jsstring \<Rightarrow> int" where
  "indexOf_from [] i p = (if p = [] then int i else -1)"
| "indexOf_from (c # cs) i p =
     (if startsWith (c # cs) p then int i else indexOf_from cs (Suc i) p)"

definition indexOf :: "jsstring \<Rightarrow> jsstring \<Rightarrow> int" where
  "indexOf s p = indexOf_from s 0 p"

fun lastIndexOf_from :: "jsstring \<Rightarrow> nat \<Rightarrow> jsstring \<Rightarrow> int" where
  "lastIndexOf_from [] i p = (if p = [] then int i else -1)"
| "lastIndexOf_from (c # cs) i p =
     (let later = lastIndexOf_from cs (Suc i) p
      in if later \<noteq> -1 then later
         else if startsWith (c # cs) p then int i else -1)"

definition lastIndexOf :: "jsstring \<Rightarrow> jsstring \<Rightarrow> int" where
  "lastIndexOf s p = lastIndexOf_from s 0 p"

section \<open>JSON values, \<open>JSON.parse\<close> and \<open>JSON.stringify\<close>\<close>

text \<open>
  The values \<open>JSON.parse\<close> produces. An object is the list of its members in property
  order. Numbers are the integers: a number literal with a fraction or an exponent part is
  outside this model of the platform's parser, which rejects it.
\<close>

datatype json =
    JNull
  | JBool bool
  | JNum int
  | JStr jsstring
  | JArr "json list"
  | JObj "(jsstring \<times> json) list"

datatype exn = SyntaxError | TypeError | FileSystemError | NoWorkspaceFolder | Rejected

definition isJSONWhiteSpace :: "code_unit \<Rightarrow> bool" where
  "isJSONWhiteSpace c = (c = 0x09 \<or> c = 0x0A \<or> c = 0x0D \<or> c = 0x20)"

definition skip_ws :: "jsstring \<Rightarrow> jsstring" where
  "skip_ws s = dropWhile isJSONWhiteSpace s"

definition isDigit :: "code_unit \<Rightarrow> bool" where
  "isDigit c = (0x30 \<le> c \<and> c \<le> 0x39)"

definition hexVal :: "code_unit \<Rightarrow> nat option" where
  "hexVal c =
     (if 0x30 \<le> c \<and> c \<le> 0x39 then Some (unat c - 0x30)
      else if 0x41 \<le> c \<and> c \<le> 0x46 then Some (unat c - 0x37)
      else if 0x61 \<le> c \<and> c \<le> 0x66 then Some (unat c - 0x57)
      else None)"

definition hex4 :: "code_unit \<Rightarrow> code_unit \<Rightarrow> code_unit \<Rightarrow> code_unit \<Rightarrow> code_unit option" where
  "hex4 a b c d =
     (case (hexVal a, hexVal b, hexVal c, hexVal d) of
        (Some x, Some y, Some z, Some w) \<Rightarrow> Some (of_nat (((x * 16 + y) * 16 + z) * 16 + w))
      | _ \<Rightarrow> None)"

text \<open>The characters of a string literal after its opening quote, up to the closing one.\<close>

fun parse_string_chars :: "jsstring \<Rightarrow> (jsstring \<times> jsstring) option" where
  "parse_string_chars [] = None"
| "parse_string_chars (c # cs) =
     (if c = 0x22 then Some ([], cs)
      else if c = 0x5C then
        (case cs of
           [] \<Rightarrow> None
         | e # cs' \<Rightarrow>
             if e = 0x75 then
               (case cs' of
                  h1 # h2 # h3 # h4 # cs'' \<Rightarrow>
                    (case hex4 h1 h2 h3 h4 of
                       None \<Rightarrow> None
                     | Some u \<Rightarrow> map_option (\<lambda>(x, r). (u # x, r)) (parse_string_chars cs''))
                | _ \<Rightarrow> None)
             else
               (case (if e = 0x22 then Some 0x22 else if e = 0x5C then Some 0x5C
                      else if e = 0x2F then Some 0x2F else if e = 0x62 then Some 0x08
                      else if e = 0x66 then Some 0x0C else if e = 0x6E then Some 0x0A
                      else if e = 0x72 then Some 0x0D else if e = 0x74 then Some 0x09
                      else None) of
                  None \<Rightarrow> None
                | Some u \<Rightarrow> map_option (\<lambda>(x, r). (u # x, r)) (parse_string_chars cs')))
      else if c < 0x20 then None
      else map_option (\<lambda>(x, r). (c # x, r)) (parse_string_chars cs))"

definition digits_value :: "jsstring \<Rightarrow> nat" where
  "digits_value ds = foldl (\<lambda>a d. 10 * a + (unat d - 0x30)) 0 ds"

text \<open>
  An integer literal: an optional minus sign, then \<open>0\<close> or a digit sequence without a
  leading zero. A following \<open>.\<close>, \<open>e\<close> or \<open>E\<close> starts the part this model leaves out.
\<close>

definition parse_number :: "jsstring \<Rightarrow> (json \<times> jsstring) option" where
  "parse_number s =
     (let neg = (s \<noteq> [] \<and> hd s = 0x2D);
          s1 = (if neg then tl s else s);
          ds = takeWhile isDigit s1;
          r = dropWhile isDigit s1
      in if ds = [] \<or> (hd ds = 0x30 \<and> length ds > 1) then None
         else if r \<noteq> [] \<and> (hd r = 0x2E \<or> hd r = 0x65 \<or> hd r = 0x45) then None
         else Some (JNum (if neg then - int (digits_value ds) else int (digits_value ds)), r))"

fun parse_value :: "nat \<Rightarrow> jsstring \<Rightarrow> (json \<times> jsstring) option"
  and parse_elements :: "nat \<Rightarrow> jsstring \<Rightarrow> (json list \<times> jsstring) option"
  and parse_members :: "nat \<Rightarrow> jsstring \<Rightarrow> ((jsstring \<times> json) list \<times> jsstring) option"
where
  "parse_value 0 s = None"
| "parse_value (Suc n) s =
     (case s of
        [] \<Rightarrow> None
      | c # cs \<Rightarrow>
          if c = 0x7B then
            (if startsWith (skip_ws cs) (str ''}'') then Some (JObj [], tl (skip_ws cs))
             else map_option (\<lambda>(ms, r). (JObj ms, r)) (parse_members n (skip_ws cs)))
          else if c = 0x5B then
            (if startsWith (skip_ws cs) (str '']'') then Some (JArr [], tl (skip_ws cs))
             else map_option (\<lambda>(vs, r). (JArr vs, r)) (parse_elements n (skip_ws cs)))
          else if c = 0x22 then map_option (\<lambda>(x, r). (JStr x, r)) (parse_string_chars cs)
          else if c = 0x2D \<or> isDigit c then parse_number s
          else if startsWith s (str ''true'') then Some (JBool True, drop 4 s)
          else if startsWith s (str ''false'') then Some (JBool False, drop 5 s)
          else if startsWith s (str ''null'') then Some (JNull, drop 4 s)
          else None)"
| "parse_elements 0 s = None"
| "parse_elements (Suc n) s =
     (case parse_value n s of
        None \<Rightarrow> None
      | Some (v, r) \<Rightarrow>
          (case skip_ws r of
             [] \<Rightarrow> None
           | d # r' \<Rightarrow>
               if d = 0x5D then Some ([v], r')
               else if d = 0x2C then
                 map_option (\<lambda>(vs, r''). (v # vs, r'')) (parse_elements n (skip_ws r'))
               else None))"
| "parse_members 0 s = None"
| "parse_members (Suc n) s =
     (case s of
        [] \<Rightarrow> None
      | q # s' \<Rightarrow>
          if q \<noteq> 0x22 then None
          else
            (case parse_string_chars s' of
               None \<Rightarrow> None
             | Some (k, r) \<Rightarrow>
                 (case skip_ws r of
                    [] \<Rightarrow> None
                  | colon # r1 \<Rightarrow>
                      if colon \<noteq> 0x3A then None
                      else
                        (case parse_value n (skip_ws r1) of
                           None \<Rightarrow> None
                         | Some (v, r2) \<Rightarrow>
                             (case skip_ws r2 of
                                [] \<Rightarrow> None
                              | d # r3 \<Rightarrow>
                                  if d = 0x7D then Some ([(k, v)], r3)
                                  else if d = 0x2C then
                                    map_option (\<lambda>(ms, r4). ((k, v) # ms, r4))
                                      (parse_members n (skip_ws r3))
                                  else None)))))"

text \<open>
  \<open>JSON.parse(text)\<close>: one value with optional white space around it; anything else
  throws a SyntaxError. The fuel of the descent is twice the length of the text and one
  more: every level of the descent reads a character of its own.
\<close>

definition JSON_parse :: "jsstring \<Rightarrow> exn + json" where
  "JSON_parse text =
     (case parse_value (Suc (2 * length text)) (skip_ws text) of
        None \<Rightarrow> Inl SyntaxError
      | Some (v, r) \<Rightarrow> if skip_ws r = [] then Inr v else Inl SyntaxError)"

text \<open>
  \<open>JSON.stringify(v)\<close> without indentation. Integers print in decimal (as JavaScript
  prints every integer below \<open>10^21\<close>). A string is quoted as QuoteJSONString does:
  the two-character escapes, \<open>\u00XX\<close> for the other control characters and for a
  surrogate without its partner, everything else as it is.
\<close>

fun digits :: "nat \<Rightarrow> jsstring" where
  "digits n = (if n < 10 then [of_nat (0x30 + n)] else digits (n div 10) @ [of_nat (0x30 + n mod 10)])"

declare digits.simps [simp del]

definition hexDigit :: "nat \<Rightarrow> code_unit" where
  "hexDigit d = (if d < 10 then of_nat (0x30 + d) else of_nat (0x57 + d))"

definition unicodeEscape :: "code_unit \<Rightarrow> jsstring" where
  "unicodeEscape c =
     [0x5C, 0x75, hexDigit (unat c div 4096), hexDigit (unat c div 256 mod 16),
      hexDigit (unat c div 16 mod 16), hexDigit (unat c mod 16)]"

definition isLeadSurrogate :: "code_unit \<Rightarrow> bool" where
  "isLeadSurrogate c = (0xD800 \<le> c \<and> c \<le> 0xDBFF)"

definition isTrailSurrogate :: "code_unit \<Rightarrow> bool" where
  "isTrailSurrogate c = (0xDC00 \<le> c \<and> c \<le> 0xDFFF)"

fun quote_chars :: "jsstring \<Rightarrow> jsstring" where
  "quote_chars [] = []"
| "quote_chars (c # cs) =
     (if c = 0x08 then [0x5C, 0x62] @ quote_chars cs
      else if c = 0x09 then [0x5C, 0x74] @ quote_chars cs
      else if c = 0x0A then [0x5C, 0x6E] @ quote_chars cs
      else if c = 0x0C then [0x5C, 0x66] @ quote_chars cs
      else if c = 0x0D then [0x5C, 0x72] @ quote_chars cs
      else if c = 0x22 then [0x5C, 0x22] @ quote_chars cs
      else if c = 0x5C then [0x5C, 0x5C] @ quote_chars cs
      else if c < 0x20 then unicodeEscape c @ quote_chars cs
      else if isLeadSurrogate c then
        (case cs of
           [] \<Rightarrow> unicodeEscape c
         | d # ds \<Rightarrow>
             if isTrailSurrogate d then c # d # quote_chars ds
             else unicodeEscape c @ quote_chars cs)
      else if isTrailSurrogate c then unicodeEscape c @ quote_chars cs
      else c # quote_chars cs)"

definition quoteJSONString :: "jsstring \<Rightarrow> jsstring" where
  "quoteJSONString s = [0x22] @ quote_chars s @ [0x22]"

fun join :: "jsstring \<Rightarrow> jsstring list \<Rightarrow> jsstring" where
  "join sep [] = []"
| "join sep [x] = x"
| "join sep (x # y # ys) = x @ sep @ join sep (y # ys)"

fun JSON_stringify :: "json \<Rightarrow> jsstring" where
  "JSON_stringify JNull = str ''null''"
| "JSON_stringify (JBool b) = (if b then str ''true'' else str ''false'')"
| "JSON_stringify (JNum n) = (if n < 0 then str ''-'' @ digits (nat (- n)) else digits (nat n))"
| "JSON_stringify (JStr s) = quoteJSONString s"
| "JSON_stringify (JArr vs) = str ''['' @ join (str '','') (map JSON_stringify vs) @ str '']''"
| "JSON_stringify (JObj ms) =
     str ''{'' @
     join (str '','') (map (\<lambda>m. quoteJSONString (fst m) @ str '':'' @ JSON_stringify (snd m)) ms) @
     str ''}''"

section \<open>The result extractor: \<open>parseClaudeCodeOutput\<close>\<close>

text \<open>
  The body of the \<open>try\<close> block of \<open>parseClaudeCodeOutput\<close>, with the source's local names.
  \<open>Inl\<close> is the exception \<open>JSON.parse\<close> throws.
\<close>

definition parseClaudeCodeOutput_try :: "jsstring \<Rightarrow> exn + json" where
  "parseClaudeCodeOutput_try output =
     (let trimmed = trim output in
      if startsWith trimmed (str ''```json'') \<and> endsWith trimmed (str ''```'') then
        (let jsonContent = trim (slice (slice trimmed 7 None) 0 (Some (- 3)))
         in JSON_parse jsonContent)
      else if startsWith trimmed (str ''{'') then JSON_parse trimmed
      else
        (let jsonBlockStart = indexOf trimmed (str ''```json'');
             contentStart = jsonBlockStart + 7;
             jsonBlockEnd = lastIndexOf trimmed (str ''```'')
         in if jsonBlockStart \<noteq> - 1 \<and> jsonBlockEnd > contentStart then
              (let jsonContent = trim (slice trimmed contentStart (Some jsonBlockEnd))
               in JSON_parse jsonContent)
            else JSON_parse trimmed))"

text \<open>The \<open>catch\<close> turns every exception of the body into \<open>null\<close>.\<close>

definition parseClaudeCodeOutput :: "jsstring \<Rightarrow> json" where
  "parseClaudeCodeOutput output =
     (case parseClaudeCodeOutput_try output of Inl _ \<Rightarrow> JNull | Inr v \<Rightarrow> v)"

text \<open>
  The four extraction strategies, for stating what the extractor does. \<open>occurs_at p s i\<close>:
  the text \<open>p\<close> stands in \<open>s\<close> at position \<open>i\<close>. The first and the last occurrence are
  searched among all positions of \<open>s\<close>, from the left and from the right.
\<close>

definition occurs_at :: "jsstring \<Rightarrow> jsstring \<Rightarrow> nat \<Rightarrow> bool" where
  "occurs_at p s i = (i + length p \<le> length s \<and> take (length p) (drop i s) = p)"

definition positions :: "jsstring \<Rightarrow> nat list" where
  "positions s = [0..<Suc (length s)]"

definition first_occurrence :: "jsstring \<Rightarrow> jsstring \<Rightarrow> nat option" where
  "first_occurrence p s = find (occurs_at p s) (positions s)"

definition last_occurrence :: "jsstring \<Rightarrow> jsstring \<Rightarrow> nat option" where
  "last_occurrence p s = find (occurs_at p s) (rev (positions s))"

datatype strategy = WholeFence | BraceStart | FenceAnywhere | Fallback

text \<open>
  When a strategy applies to the trimmed output, as the code decides it: the whole text is
  a fenced block; the text starts with a brace; a json-tagged fence occurs and the last
  fence marker of the text starts after the end of the first json-tagged fence, with at
  least one character between them; the fallback always applies.
\<close>

fun strategy_applies :: "strategy \<Rightarrow> jsstring \<Rightarrow> bool" where
  "strategy_applies WholeFence t =
     (occurs_at (str ''```json'') t 0 \<and> 3 \<le> length t \<and> occurs_at (str ''```'') t (length t - 3))"
| "strategy_applies BraceStart t = occurs_at (str ''{'') t 0"
| "strategy_applies FenceAnywhere t =
     (case first_occurrence (str ''```json'') t of
        None \<Rightarrow> False
      | Some i \<Rightarrow>
          (case last_occurrence (str ''```'') t of None \<Rightarrow> False | Some j \<Rightarrow> i + 7 < j))"
| "strategy_applies Fallback t = True"

text \<open>
  The third strategy as the specification words it: it applies as soon as a json-tagged
  fence occurs anywhere in the text.
\<close>

fun stated_applies :: "strategy \<Rightarrow> jsstring \<Rightarrow> bool" where
  "stated_applies FenceAnywhere t = (first_occurrence (str ''```json'') t \<noteq> None)"
| "stated_applies k t = strategy_applies k t"

text \<open>
  The text a strategy hands to \<open>JSON.parse\<close>: the interior of the fenced block without
  its two markers, or the interior between the first json-tagged fence and the last fence
  marker, both with the white space around them removed; otherwise the whole text.
\<close>

fun strategy_interior :: "strategy \<Rightarrow> jsstring \<Rightarrow> jsstring" where
  "strategy_interior WholeFence t = trim (take (length t - 10) (drop 7 t))"
| "strategy_interior BraceStart t = t"
| "strategy_interior FenceAnywhere t =
     (case first_occurrence (str ''```json'') t of
        None \<Rightarrow> []
      | Some i \<Rightarrow>
          (case last_occurrence (str ''```'') t of
             None \<Rightarrow> []
           | Some j \<Rightarrow> trim (take (j - (i + 7)) (drop (i + 7) t))))"
| "strategy_interior Fallback t = t"

text \<open>
  Extraction in the fixed order, the first strategy that applies deciding the result: the
  value parsed from its text, or \<open>null\<close> when that text does not parse.
\<close>

definition extract_by :: "(strategy \<Rightarrow> jsstring \<Rightarrow> bool) \<Rightarrow> jsstring \<Rightarrow> json" where
  "extract_by applies output =
     (let t = trim output in
      case find (\<lambda>k. applies k t) [WholeFence, BraceStart, FenceAnywhere, Fallback] of
        None \<Rightarrow> JNull
      | Some k \<Rightarrow> (case JSON_parse (strategy_interior k t) of Inl _ \<Rightarrow> JNull | Inr v \<Rightarrow> v))"








section \<open>The Claude Code CLI service\<close>

text \<open>
  Modelled from the spec: the type \<open>ClaudeModel\<close> of \<open>shared/types/messages\<close>, which is
  not among the sources; the specification enumerates the model selectors \<open>sonnet\<close>,
  \<open>opus\<close> and \<open>haiku\<close>. At run time a selector is its name.
\<close>

datatype ClaudeModel = Sonnet | Opus | Haiku

fun getCliModelName :: "ClaudeModel \<Rightarrow> jsstring" where
  "getCliModelName Sonnet = str ''sonnet''"
| "getCliModelName Opus = str ''opus''"
| "getCliModelName Haiku = str ''haiku''"

datatype error_code = COMMAND_NOT_FOUND | TIMEOUT | PARSE_ERROR | UNKNOWN_ERROR

record execution_error =
  code :: error_code
  message :: jsstring
  details :: "jsstring option"

record ClaudeCodeExecutionResult =
  success :: bool
  result_output :: "jsstring option"
  error :: "execution_error option"
  executionTimeMs :: int

text \<open>
  The state the service works on. \<open>activeProcesses\<close> is the module's map from request
  identifiers to running processes. A child process is known by its handle; the promise
  \<open>nodeChildProcess\<close> of a subprocess resolves to the handle or rejects. The effects
  of the service are recorded in the order in which they happen: the entries written
  with \<open>log\<close>, the handles \<open>kill()\<close> was called on, and the callbacks registered with
  \<open>setTimeout\<close>, each with its delay in milliseconds.
\<close>

datatype log_level = INFO | WARN

record log_entry =
  level :: log_level
  text_of :: jsstring
  data :: "json option"

datatype content_type = Tool_use | Text

datatype callback =
    ForceKillUnlessKilled nat jsstring
  | OnProgress jsstring jsstring jsstring content_type

record Subprocess =
  nodeChildProcess :: "exn + nat"

record active_process =
  subprocess :: Subprocess
  startTime :: int

record world =
  activeProcesses :: "jsstring \<rightharpoonup> active_process"
  logged :: "log_entry list"
  killed :: "nat list"
  timeouts :: "(int \<times> callback) list"

definition log :: "log_level \<Rightarrow> jsstring \<Rightarrow> json option \<Rightarrow> world \<Rightarrow> world" where
  "log l m d w = w\<lparr>logged := logged w @ [\<lparr>level = l, text_of = m, data = d\<rparr>]\<rparr>"

definition setTimeout :: "callback \<Rightarrow> int \<Rightarrow> world \<Rightarrow> world" where
  "setTimeout f ms w = w\<lparr>timeouts := timeouts w @ [(ms, f)]\<rparr>"

text \<open>
  The placeholder both executions return: \<open>JSON.stringify\<close> of a fixed object. The
  Chinese words of its message and of its description are written as their code units.
\<close>

definition offline_workflow :: json where
  "offline_workflow =
     JObj [(str ''status'', JStr (str ''success'')),
           (str ''message'',
            JStr (str ''[yougao '' @ [0x79BB, 0x7EBF, 0x6A21, 0x5F0F] @ str ''] '' @
                  [0x5DE5, 0x4F5C, 0x6D41, 0x5DF2, 0x5904, 0x7406, 0x5B8C, 0x6210])),
           (str ''values'',
            JObj [(str ''workflow'',
                   JObj [(str ''name'', JStr (str ''offline-workflow'')),
                         (str ''description'',
                          JStr [0x79BB, 0x7EBF, 0x6A21, 0x5F0F, 0x751F, 0x6210, 0x7684,
                                0x5DE5, 0x4F5C, 0x6D41]),
                         (str ''nodes'', JArr []),
                         (str ''edges'', JArr [])])])]"

definition mockOutput :: jsstring where
  "mockOutput = JSON_stringify offline_workflow"

text \<open>
  What both executions log. The value \<open>undefined\<close> of an omitted \<open>allowedTools\<close> is
  shown as \<open>null\<close>; \<open>cwd\<close> is the result of \<open>process.cwd()\<close>, read only when no
  working directory is given.
\<close>

definition call_data ::
  "jsstring \<Rightarrow> int \<Rightarrow> ClaudeModel \<Rightarrow> jsstring list option \<Rightarrow> jsstring option \<Rightarrow> jsstring \<Rightarrow> json" where
  "call_data prompt timeoutMs model allowedTools workingDirectory cwd =
     JObj [(str ''promptLength'', JNum (int (length prompt))),
           (str ''timeoutMs'', JNum timeoutMs),
           (str ''model'', JStr (getCliModelName model)),
           (str ''allowedTools'',
            (case allowedTools of None \<Rightarrow> JNull | Some ts \<Rightarrow> JArr (map JStr ts))),
           (str ''cwd'', JStr (case workingDirectory of None \<Rightarrow> cwd | Some d \<Rightarrow> d))]"

text \<open>
  \<open>executeClaudeCodeCLI\<close>. The first two arguments are the two readings of \<open>Date.now()\<close>,
  the third is \<open>process.cwd()\<close>; then the arguments of the source follow. The log
  text is the source's, its Chinese words written as their code units.
\<close>

definition executeClaudeCodeCLI ::
  "int \<Rightarrow> int \<Rightarrow> jsstring \<Rightarrow> jsstring \<Rightarrow> int \<Rightarrow> jsstring option \<Rightarrow> jsstring option \<Rightarrow>
   ClaudeModel \<Rightarrow> jsstring list option \<Rightarrow> world \<Rightarrow> ClaudeCodeExecutionResult \<times> world" where
  "executeClaudeCodeCLI now0 now1 cwd prompt timeoutMs requestId workingDirectory model allowedTools w =
     (let startTime = now0;
          w1 = log INFO
                 (str ''[yougao] '' @ [0x79BB, 0x7EBF, 0x6A21, 0x5F0F, 0xFF1A, 0x8DF3, 0x8FC7] @
                  str '' Claude CLI '' @
                  [0x8C03, 0x7528, 0xFF0C, 0x8FD4, 0x56DE, 0x6A21, 0x62DF, 0x6570, 0x636E])
                 (Some (call_data prompt timeoutMs model allowedTools workingDirectory cwd)) w;
          executionTimeMs = min (now1 - startTime) 1000
      in (\<lparr>success = True, result_output = Some mockOutput, error = None,
           executionTimeMs = executionTimeMs\<rparr>, w1))"

text \<open>
  \<open>executeClaudeCodeCLIStreaming\<close>. The progress callback is not called before the
  function returns: two calls of it are registered with \<open>setTimeout\<close>, with the
  chunks and display texts of the source.
\<close>

definition executeClaudeCodeCLIStreaming ::
  "int \<Rightarrow> int \<Rightarrow> jsstring \<Rightarrow> jsstring \<Rightarrow> int \<Rightarrow> jsstring option \<Rightarrow> jsstring option \<Rightarrow>
   ClaudeModel \<Rightarrow> jsstring list option \<Rightarrow> world \<Rightarrow> ClaudeCodeExecutionResult \<times> world" where
  "executeClaudeCodeCLIStreaming now0 now1 cwd prompt timeoutMs requestId workingDirectory model
     allowedTools w =
     (let startTime = now0;
          w1 = log INFO
                 (str ''[yougao] '' @ [0x79BB, 0x7EBF, 0x6A21, 0x5F0F, 0xFF1A, 0x8DF3, 0x8FC7] @
                  str '' Claude CLI '' @
                  [0x6D41, 0x5F0F, 0x8C03, 0x7528, 0xFF0C, 0x8FD4, 0x56DE, 0x6A21, 0x62DF,
                   0x6570, 0x636E])
                 (Some (call_data prompt timeoutMs model allowedTools workingDirectory cwd)) w;
          processing = [0x79BB, 0x7EBF, 0x6A21, 0x5F0F, 0x5904, 0x7406, 0x4E2D] @ str ''...'';
          w2 = setTimeout (OnProgress ([0x5904, 0x7406, 0x4E2D] @ str ''...'') processing processing Text)
                 100 w1;
          w3 = setTimeout (OnProgress [0x5B8C, 0x6210] mockOutput mockOutput Text) 500 w2;
          executionTimeMs = min (now1 - startTime) 600
      in (\<lparr>success = True, result_output = Some mockOutput, error = None,
           executionTimeMs = executionTimeMs\<rparr>, w3))"

text \<open>
  \<open>cancelGeneration\<close> and \<open>cancelRefinement\<close>; the first argument is the reading of
  \<open>Date.now()\<close>. The two functions differ in the words of their log entries only. Awaiting
  a rejected \<open>nodeChildProcess\<close> throws.
\<close>

record cancel_result =
  cancelled :: bool
  cancel_executionTimeMs :: "int option"

definition cancel_kill :: "jsstring \<Rightarrow> jsstring \<Rightarrow> int \<Rightarrow> jsstring \<Rightarrow> active_process \<Rightarrow> world \<Rightarrow> exn + cancel_result \<times> world" where
  "cancel_kill what forced now requestId activeGen w =
     (let executionTimeMs = now - startTime activeGen in
      case nodeChildProcess (subprocess activeGen) of
        Inl e \<Rightarrow> Inl e
      | Inr childProcess \<Rightarrow>
          (let w1 = log INFO (str ''Cancelling '' @ what @ str '' for requestId: '' @ requestId)
                      (Some (JObj [(str ''pid'', JNum (int childProcess)),
                                   (str ''elapsedMs'', JNum executionTimeMs)])) w;
               w2 = w1\<lparr>killed := killed w1 @ [childProcess]\<rparr>;
               w3 = setTimeout (ForceKillUnlessKilled childProcess
                      (str ''Forcefully killed '' @ forced @ str '' for requestId: '' @ requestId))
                      500 w2;
               w4 = w3\<lparr>activeProcesses := (activeProcesses w3)(requestId := None)\<rparr>
           in Inr (\<lparr>cancelled = True, cancel_executionTimeMs = Some executionTimeMs\<rparr>, w4)))"

definition cancelGeneration :: "int \<Rightarrow> jsstring \<Rightarrow> world \<Rightarrow> exn + cancel_result \<times> world" where
  "cancelGeneration now requestId w =
     (case activeProcesses w requestId of
        None \<Rightarrow>
          Inr (\<lparr>cancelled = False, cancel_executionTimeMs = None\<rparr>,
               log WARN (str ''No active generation found for requestId: '' @ requestId) None w)
      | Some activeGen \<Rightarrow>
          cancel_kill (str ''generation'') (str ''process'') now requestId activeGen w)"

definition cancelRefinement :: "int \<Rightarrow> jsstring \<Rightarrow> world \<Rightarrow> exn + cancel_result \<times> world" where
  "cancelRefinement now requestId w =
     (case activeProcesses w requestId of
        None \<Rightarrow>
          Inr (\<lparr>cancelled = False, cancel_executionTimeMs = None\<rparr>,
               log WARN (str ''No active refinement found for requestId: '' @ requestId) None w)
      | Some activeGen \<Rightarrow>
          cancel_kill (str ''refinement'') (str ''refinement process'') now requestId activeGen w)"

section \<open>The file service and the workflow commands\<close>

text \<open>
  The offline configuration (\<open>config/offline.config.js\<close>). The functions below take the
  configuration as an argument; \<open>offlineConfig\<close> is the one the repository ships.
\<close>

record offline_config =
  isOffline :: bool
  localStoragePath :: jsstring
  disableCloudApi :: bool

definition offlineConfig :: offline_config where
  "offlineConfig =
     \<lparr>isOffline = True, localStoragePath = str ''~/.yougao/workflows'', disableCloudApi = True\<rparr>"

text \<open>
  The editor's file system, as the three calls of \<open>vscode.workspace.fs\<close> the code makes:
  whether \<open>stat\<close> succeeds on a path, the decoded content \<open>readFile\<close> gives (\<open>None\<close>: it
  throws), and the entries \<open>readDirectory\<close> gives, each a name and a \<open>FileType\<close>
  (\<open>None\<close>: it throws). \<open>FileType.File\<close> is 1.
\<close>

record file_system =
  fs_stat :: "jsstring \<Rightarrow> bool"
  fs_readFile :: "jsstring \<Rightarrow> jsstring option"
  fs_readDirectory :: "jsstring \<Rightarrow> (jsstring \<times> nat) list option"

definition FileType_File :: nat where
  "FileType_File = 1"

text \<open>
  \<open>path.join\<close> on segments that need no normalisation: empty segments are left out and
  the others are joined with the separator.
\<close>

definition path_join :: "jsstring list \<Rightarrow> jsstring" where
  "path_join segments = join (str ''/'') (filter (\<lambda>s. s \<noteq> []) segments)"

record FileService =
  workspacePath :: jsstring
  workflowsDirectory :: jsstring
  offlineWorkflowsDirectory :: jsstring

definition resolveLocalStoragePath :: "jsstring \<Rightarrow> jsstring \<Rightarrow> jsstring" where
  "resolveLocalStoragePath homeDir path =
     (if startsWith path (str ''~/'') \<or> path = str ''~''
      then path_join [homeDir, slice path 2 None] else path)"

text \<open>
  The constructor: \<open>workspaceFolders\<close> are the paths of the open workspace folders,
  \<open>homeDir\<close> is \<open>os.homedir()\<close>.
\<close>

definition new_FileService :: "offline_config \<Rightarrow> jsstring list \<Rightarrow> jsstring \<Rightarrow> exn + FileService" where
  "new_FileService cfg workspaceFolders homeDir =
     (case workspaceFolders of
        [] \<Rightarrow> Inl NoWorkspaceFolder
      | folder # _ \<Rightarrow>
          Inr \<lparr>workspacePath = folder,
               workflowsDirectory = path_join [folder, str ''.vscode'', str ''workflows''],
               offlineWorkflowsDirectory = resolveLocalStoragePath homeDir (localStoragePath cfg)\<rparr>)"

definition getCurrentStorageDirectory :: "offline_config \<Rightarrow> FileService \<Rightarrow> jsstring" where
  "getCurrentStorageDirectory cfg this =
     (if isOffline cfg then offlineWorkflowsDirectory this else workflowsDirectory this)"

definition getWorkflowsDirectory :: "offline_config \<Rightarrow> FileService \<Rightarrow> jsstring" where
  "getWorkflowsDirectory cfg this = getCurrentStorageDirectory cfg this"

definition getOfflineWorkflowsDirectory :: "FileService \<Rightarrow> jsstring" where
  "getOfflineWorkflowsDirectory this = offlineWorkflowsDirectory this"

definition getWorkflowFilePath :: "offline_config \<Rightarrow> FileService \<Rightarrow> jsstring \<Rightarrow> jsstring" where
  "getWorkflowFilePath cfg this workflowName =
     (let storageDir = getCurrentStorageDirectory cfg this
      in path_join [storageDir, workflowName @ str ''.json''])"

definition getOfflineWorkflowFilePath :: "FileService \<Rightarrow> jsstring \<Rightarrow> jsstring" where
  "getOfflineWorkflowFilePath this workflowName =
     path_join [offlineWorkflowsDirectory this, workflowName @ str ''.json'']"

definition fileExists :: "file_system \<Rightarrow> jsstring \<Rightarrow> bool" where
  "fileExists disk filePath = fs_stat disk filePath"

definition readFile :: "file_system \<Rightarrow> jsstring \<Rightarrow> exn + jsstring" where
  "readFile disk filePath =
     (case fs_readFile disk filePath of None \<Rightarrow> Inl FileSystemError | Some content \<Rightarrow> Inr content)"

subsection \<open>Loading one workflow\<close>

text \<open>
  The message \<open>loadWorkflow\<close> posts to the webview. An error carries the code
  \<open>LOAD_FAILED\<close> and a message: the text of the source, or the message of the exception
  that was caught.
\<close>

datatype error_message = Message jsstring | MessageOf exn

datatype load_message =
    ERROR "jsstring option" jsstring error_message
  | LOAD_WORKFLOW "jsstring option" json

text \<open>
  \<open>loadWorkflow\<close>. \<open>migrateWorkflow\<close> (\<open>utils/migrate-workflow\<close>) is not among the
  sources and is an argument. \<open>filePath\<close> is the empty string until a file is found, as
  in the source.
\<close>

definition loadWorkflow ::
  "offline_config \<Rightarrow> (json \<Rightarrow> exn + json) \<Rightarrow> FileService \<Rightarrow> file_system \<Rightarrow> jsstring \<Rightarrow>
   jsstring option \<Rightarrow> load_message" where
  \<open>loadWorkflow cfg migrateWorkflow fileService disk workflowId requestId =
     (let currentFilePath = getWorkflowFilePath cfg fileService workflowId;
          (filePath, foundIn) =
            (if fileExists disk currentFilePath then (currentFilePath, str ''current'')
             else if isOffline cfg then
               (let offlineFilePath = getOfflineWorkflowFilePath fileService workflowId
                in if fileExists disk offlineFilePath then (offlineFilePath, str ''offline'')
                   else ([], []))
             else
               (let workspaceFilePath = getWorkflowFilePath cfg fileService workflowId
                in if fileExists disk workspaceFilePath then (workspaceFilePath, str ''workspace'')
                   else ([], [])))
      in if filePath = [] then
           ERROR requestId (str ''LOAD_FAILED'')
             (Message (str ''Workflow "'' @ workflowId @ str ''" not found in any storage location''))
         else
           (case readFile disk filePath of
              Inl e \<Rightarrow> ERROR requestId (str ''LOAD_FAILED'') (MessageOf e)
            | Inr content \<Rightarrow>
                (case JSON_parse content of
                   Inl e \<Rightarrow> ERROR requestId (str ''LOAD_FAILED'') (MessageOf e)
                 | Inr parsedWorkflow \<Rightarrow>
                     (case migrateWorkflow parsedWorkflow of
                        Inl e \<Rightarrow> ERROR requestId (str ''LOAD_FAILED'') (MessageOf e)
                      | Inr workflow \<Rightarrow> LOAD_WORKFLOW requestId workflow))))\<close>


subsection \<open>Listing the workflows\<close>

datatype directoryType = Current | Offline | Workspace

text \<open>
  An entry of the listing. Its \<open>name\<close>, \<open>description\<close> and \<open>updatedAt\<close> are whatever
  values the parsed file holds, so they are JSON values; an absent \<open>description\<close> is
  \<open>None\<close>. The payload sent to the webview has the entries without their \<open>source\<close>.
\<close>

record workflow_entry =
  id' :: jsstring
  name :: json
  description :: "json option"
  updatedAt :: json
  source :: "directoryType option"

datatype list_message =
    LIST_ERROR "jsstring option" jsstring error_message
  | WORKFLOW_LIST_LOADED "jsstring option" "workflow_entry list"

text \<open>
  Reading one of the properties \<open>name\<close>, \<open>description\<close>, \<open>updatedAt\<close> of a parsed value:
  on \<open>null\<close> it throws a TypeError, on an object it gives the member of that name (the
  last one, if the text repeated the name) or \<open>undefined\<close>, on every other value
  \<open>undefined\<close>. \<open>truthy\<close> is the truth value JavaScript gives a JSON value in \<open>||\<close>.
\<close>

definition get_property :: "json \<Rightarrow> jsstring \<Rightarrow> exn + json option" where
  "get_property v k =
     (case v of
        JNull \<Rightarrow> Inl TypeError
      | JObj ms \<Rightarrow> Inr (map_of (rev ms) k)
      | _ \<Rightarrow> Inr None)"

fun truthy :: "json \<Rightarrow> bool" where
  "truthy JNull = False"
| "truthy (JBool b) = b"
| "truthy (JNum n) = (n \<noteq> 0)"
| "truthy (JStr s) = (s \<noteq> [])"
| "truthy (JArr vs) = True"
| "truthy (JObj ms) = True"

text \<open>\<open>s.replace(p, r)\<close> with a string pattern replaces the first occurrence of \<open>p\<close>.\<close>

definition replace :: "jsstring \<Rightarrow> jsstring \<Rightarrow> jsstring \<Rightarrow> jsstring" where
  "replace s p r =
     (let i = indexOf s p
      in if i = - 1 then s else take (nat i) s @ r @ drop (nat i + length p) s)"

text \<open>
  One step of the loop over the directory entries: \<open>st\<close> is the pair of the array
  \<open>workflows\<close> and the set \<open>processedFiles\<close>; \<open>nowISO\<close> is
  \<open>new Date().toISOString()\<close>. A file that cannot be read or parsed is skipped and its
  name is not marked as processed.
\<close>

definition load_entry ::
  "offline_config \<Rightarrow> FileService \<Rightarrow> file_system \<Rightarrow> jsstring \<Rightarrow> directoryType \<Rightarrow>
   workflow_entry list \<times> jsstring set \<Rightarrow> jsstring \<times> nat \<Rightarrow> workflow_entry list \<times> jsstring set" where
  "load_entry cfg fileService disk nowISO directoryType st entry =
     (let (workflows, processedFiles) = st; (filename, fileType) = entry in
      if fileType = FileType_File \<and> endsWith filename (str ''.json'') then
        (let workflowId = replace filename (str ''.json'') [] in
         if workflowId \<in> processedFiles then st
         else
           (let filePath =
                  (if directoryType = Offline then getOfflineWorkflowFilePath fileService workflowId
                   else getWorkflowFilePath cfg fileService workflowId)
            in case readFile disk filePath of
                 Inl e \<Rightarrow> st
               | Inr content \<Rightarrow>
                   (case JSON_parse content of
                      Inl e \<Rightarrow> st
                    | Inr workflow \<Rightarrow>
                        (case (get_property workflow (str ''name''),
                               get_property workflow (str ''description''),
                               get_property workflow (str ''updatedAt'')) of
                           (Inr n, Inr d, Inr u) \<Rightarrow>
                             (workflows @
                                [\<lparr>id' = workflowId,
                                  name = (case n of
                                            None \<Rightarrow> JStr workflowId
                                          | Some v \<Rightarrow> if truthy v then v else JStr workflowId),
                                  description = d,
                                  updatedAt = (case u of
                                                 None \<Rightarrow> JStr nowISO
                                               | Some v \<Rightarrow> if truthy v then v else JStr nowISO),
                                  source = Some directoryType\<rparr>],
                              insert workflowId processedFiles)
                         | _ \<Rightarrow> st))))
      else st)"

definition loadWorkflowsFromDirectory ::
  "offline_config \<Rightarrow> FileService \<Rightarrow> file_system \<Rightarrow> jsstring \<Rightarrow>
   workflow_entry list \<times> jsstring set \<Rightarrow> directoryType \<Rightarrow> workflow_entry list \<times> jsstring set" where
  "loadWorkflowsFromDirectory cfg fileService disk nowISO st directoryType =
     (let directoryPath =
            (case directoryType of
               Current \<Rightarrow> getWorkflowsDirectory cfg fileService
             | Offline \<Rightarrow> getOfflineWorkflowsDirectory fileService
             | Workspace \<Rightarrow> getWorkflowsDirectory cfg fileService)
      in case fs_readDirectory disk directoryPath of
           None \<Rightarrow> st
         | Some files \<Rightarrow> foldl (load_entry cfg fileService disk nowISO directoryType) st files)"

text \<open>
  \<open>new Date(v).getTime()\<close>, with \<open>None\<close> for NaN. A string denotes a time when it has
  the date form \<open>YYYY-MM-DD\<close> or the date-time form \<open>YYYY-MM-DDTHH:mm:ss.sssZ\<close> (what
  \<open>toISOString\<close> writes) or \<open>YYYY-MM-DDTHH:mm:ssZ\<close>, with fields in their ranges; the
  other forms an engine may accept are outside this model. A number is a time when it is
  in the range of time values.
\<close>

definition number_of :: "jsstring \<Rightarrow> nat option" where
  "number_of ds = (if ds \<noteq> [] \<and> list_all isDigit ds then Some (digits_value ds) else None)"

definition days_in_month :: "nat \<Rightarrow> nat \<Rightarrow> nat" where
  "days_in_month y m =
     (if m = 2 then (if y mod 4 = 0 \<and> (y mod 100 \<noteq> 0 \<or> y mod 400 = 0) then 29 else 28)
      else if m = 4 \<or> m = 6 \<or> m = 9 \<or> m = 11 then 30 else 31)"

definition days_from_civil :: "nat \<Rightarrow> nat \<Rightarrow> nat \<Rightarrow> int" where
  "days_from_civil y m d =
     (let y1 = (if m \<le> 2 then int y - 1 else int y);
          era = y1 div 400;
          yoe = y1 - era * 400;
          mp = (if m > 2 then int m - 3 else int m + 9);
          doy = (153 * mp + 2) div 5 + int d - 1;
          doe = yoe * 365 + yoe div 4 - yoe div 100 + doy
      in era * 146097 + doe - 719468)"

definition parse_date :: "jsstring \<Rightarrow> int option" where
  "parse_date s =
     (if length s = 10 \<and> s ! 4 = 0x2D \<and> s ! 7 = 0x2D then
        (case (number_of (take 4 s), number_of (take 2 (drop 5 s)), number_of (take 2 (drop 8 s))) of
           (Some y, Some m, Some d) \<Rightarrow>
             if 1 \<le> m \<and> m \<le> 12 \<and> 1 \<le> d \<and> d \<le> days_in_month y m
             then Some (days_from_civil y m d * 86400000) else None
         | _ \<Rightarrow> None)
      else None)"

definition parse_time :: "jsstring \<Rightarrow> int option" where
  "parse_time s =
     (if length s \<ge> 8 \<and> s ! 2 = 0x3A \<and> s ! 5 = 0x3A then
        (case (number_of (take 2 s), number_of (take 2 (drop 3 s)), number_of (take 2 (drop 6 s)),
               (if length s = 8 then Some 0
                else if length s = 12 \<and> s ! 8 = 0x2E then number_of (drop 9 s) else None)) of
           (Some h, Some mi, Some sec, Some ms) \<Rightarrow>
             if h \<le> 23 \<and> mi \<le> 59 \<and> sec \<le> 59
             then Some (int h * 3600000 + int mi * 60000 + int sec * 1000 + int ms) else None
         | _ \<Rightarrow> None)
      else None)"

definition Date_parse :: "jsstring \<Rightarrow> int option" where
  "Date_parse s =
     (if length s = 10 then parse_date s
      else if (length s = 20 \<or> length s = 24) \<and> s ! 10 = 0x54 \<and> last s = 0x5A then
        (case (parse_date (take 10 s), parse_time (butlast (drop 11 s))) of
           (Some day, Some time) \<Rightarrow> Some (day + time)
         | _ \<Rightarrow> None)
      else None)"

fun Date_getTime :: "json \<Rightarrow> int option" where
  "Date_getTime (JStr s) = Date_parse s"
| "Date_getTime (JNum n) = (if \<bar>n\<bar> \<le> 8640000000000000 then Some n else None)"
| "Date_getTime (JBool b) = Some (if b then 1 else 0)"
| "Date_getTime JNull = Some 0"
| "Date_getTime (JArr vs) = None"
| "Date_getTime (JObj ms) = None"

text \<open>
  The comparator of the listing, \<open>dateB - dateA\<close>; \<open>None\<close> is NaN.
\<close>

definition compare_updatedAt :: "workflow_entry \<Rightarrow> workflow_entry \<Rightarrow> int option" where
  "compare_updatedAt a b =
     (case (Date_getTime (updatedAt a), Date_getTime (updatedAt b)) of
        (Some dateA, Some dateB) \<Rightarrow> Some (dateB - dateA)
      | _ \<Rightarrow> None)"

text \<open>
  \<open>Array.prototype.sort\<close> with a comparator, as the engine of the editor (V8) sorts an
  array of fewer than 64 elements: the comparator's NaN is read as \<open>+0\<close>; the run at the
  start of the array is found (\<open>CountAndMakeRun\<close>: a run that does not descend, or a
  strictly descending one, which is reversed), and every later element is put into the
  sorted part at the place a binary search finds (\<open>BinaryInsertionSort\<close>). For a
  consistent comparator the result is the one stable sorted arrangement, also for longer
  arrays, which the engine merges from several such runs.
\<close>

definition sort_order :: "('a \<Rightarrow> 'a \<Rightarrow> int option) \<Rightarrow> 'a \<Rightarrow> 'a \<Rightarrow> int" where
  "sort_order cmp x y = (case cmp x y of None \<Rightarrow> 0 | Some v \<Rightarrow> v)"

fun run_tail :: "('a \<Rightarrow> 'a \<Rightarrow> int option) \<Rightarrow> bool \<Rightarrow> 'a \<Rightarrow> 'a list \<Rightarrow> nat" where
  "run_tail cmp isDescending previousElement [] = 0"
| "run_tail cmp isDescending previousElement (currentElement # xs) =
     (let order = sort_order cmp currentElement previousElement
      in if (if isDescending then order \<ge> 0 else order < 0) then 0
         else Suc (run_tail cmp isDescending currentElement xs))"

definition CountAndMakeRun :: "('a \<Rightarrow> 'a \<Rightarrow> int option) \<Rightarrow> 'a list \<Rightarrow> 'a list \<times> 'a list" where
  "CountAndMakeRun cmp xs =
     (case xs of
        elementHigh # elementLow # rest \<Rightarrow>
          (let isDescending = (sort_order cmp elementLow elementHigh < 0);
               runLength = 2 + run_tail cmp isDescending elementLow rest;
               run = take runLength xs
           in (if isDescending then rev run else run, drop runLength xs))
      | _ \<Rightarrow> (xs, []))"

function binary_position ::
  "('a \<Rightarrow> 'a \<Rightarrow> int option) \<Rightarrow> 'a \<Rightarrow> 'a list \<Rightarrow> nat \<Rightarrow> nat \<Rightarrow> nat" where
  "binary_position cmp pivot part left right =
     (if left < right then
        (let mid = left + (right - left) div 2
         in if sort_order cmp pivot (part ! mid) < 0
            then binary_position cmp pivot part left mid
            else binary_position cmp pivot part (mid + 1) right)
      else left)"
  by pat_completeness auto
termination
  by (relation "measure (\<lambda>(cmp, pivot, part, left, right). right - left)") auto

declare binary_position.simps [simp del]

definition binary_insert :: "('a \<Rightarrow> 'a \<Rightarrow> int option) \<Rightarrow> 'a list \<Rightarrow> 'a \<Rightarrow> 'a list" where
  "binary_insert cmp part pivot =
     (let left = binary_position cmp pivot part 0 (length part)
      in take left part @ [pivot] @ drop left part)"

definition Array_sort :: "('a \<Rightarrow> 'a \<Rightarrow> int option) \<Rightarrow> 'a list \<Rightarrow> 'a list" where
  "Array_sort cmp xs =
     (let (run, rest) = CountAndMakeRun cmp xs in foldl (binary_insert cmp) run rest)"

text \<open>
  \<open>gather_workflows\<close> is the first part of \<open>loadWorkflowList\<close>, the three calls of
  \<open>loadWorkflowsFromDirectory\<close>; \<open>loadWorkflowList\<close> sorts what they gathered, drops
  the \<open>source\<close> of every entry and posts the list.
\<close>

definition gather_workflows ::
  "offline_config \<Rightarrow> FileService \<Rightarrow> file_system \<Rightarrow> jsstring \<Rightarrow> workflow_entry list \<times> jsstring set" where
  "gather_workflows cfg fileService disk nowISO =
     (let st0 = ([], {});
          st1 = loadWorkflowsFromDirectory cfg fileService disk nowISO st0 Current;
          st2 = (if isOffline cfg
                 then loadWorkflowsFromDirectory cfg fileService disk nowISO st1 Offline else st1)
      in loadWorkflowsFromDirectory cfg fileService disk nowISO st2 Workspace)"

definition loadWorkflowList ::
  "offline_config \<Rightarrow> FileService \<Rightarrow> file_system \<Rightarrow> jsstring \<Rightarrow> jsstring option \<Rightarrow> list_message" where
  "loadWorkflowList cfg fileService disk nowISO requestId =
     (let workflows = Array_sort compare_updatedAt (fst (gather_workflows cfg fileService disk nowISO));
          payloadWorkflows = map (\<lambda>w. w\<lparr>source := None\<rparr>) workflows
      in WORKFLOW_LIST_LOADED requestId payloadWorkflows)"

text \<open>
  A file system made of directories of regular files, each directory given by its path
  and its files by name and content; for stating examples.
\<close>

definition disk_of :: "(jsstring \<times> (jsstring \<times> jsstring) list) list \<Rightarrow> file_system" where
  "disk_of dirs =
     (let files = concat (map (\<lambda>(d, fs). map (\<lambda>(n, c). (path_join [d, n], c)) fs) dirs) in
      \<lparr>fs_stat = (\<lambda>p. p \<in> set (map fst dirs) \<or> p \<in> set (map fst files)),
       fs_readFile = map_of files,
       fs_readDirectory = (\<lambda>p. map_option (map (\<lambda>(n, c). (n, FileType_File))) (map_of dirs p))\<rparr>)"

definition example_service :: FileService where
  "example_service =
     \<lparr>workspacePath = str ''/ws'',
      workflowsDirectory = str ''/ws/.vscode/workflows'',
      offlineWorkflowsDirectory = str ''/home/u/.yougao/workflows''\<rparr>"
section \<open>Properties of the result extractor\<close>

subsection \<open>Positions, slices and the strategies\<close>

lemma startsWith_occurs: "startsWith s p = occurs_at p s 0"
proof
  assume "startsWith s p"
  then have e: "take (length p) s = p" by (simp add: startsWith_def)
  then have "length (take (length p) s) = length p" by simp
  then have "length p \<le> length s" by simp
  with e show "occurs_at p s 0" by (simp add: occurs_at_def)
next
  assume "occurs_at p s 0" then show "startsWith s p" by (simp add: startsWith_def occurs_at_def)
qed

lemma endsWith_occurs: "endsWith s p = (length p \<le> length s \<and> occurs_at p s (length s - length p))"
  by (auto simp: endsWith_def occurs_at_def)

lemma occurs_at_Cons: "occurs_at p (c # cs) (Suc i) = occurs_at p cs i"
  by (simp add: occurs_at_def)

lemma find_map: "find P (map f xs) = map_option f (find (P \<circ> f) xs)"
  by (induction xs) auto

lemma find_append: "find P (xs @ ys) = (case find P xs of None \<Rightarrow> find P ys | Some x \<Rightarrow> Some x)"
  by (induction xs) auto

lemma positions_Nil: "positions [] = [0]"
  by (simp add: positions_def)

lemma positions_Cons: "positions (c # cs) = 0 # map Suc (positions cs)"
proof -
  have "[0..<Suc (Suc (length cs))] = 0 # [Suc 0..<Suc (Suc (length cs))]"
    by (rule upt_conv_Cons) simp
  also have "[Suc 0..<Suc (Suc (length cs))] = map Suc [0..<Suc (length cs)]"
    by (rule map_Suc_upt [symmetric])
  finally show ?thesis by (simp only: positions_def length_Cons)
qed

lemma indexOf_from_find:
  "indexOf_from s k p = (case first_occurrence p s of None \<Rightarrow> - 1 | Some i \<Rightarrow> int (k + i))"
proof (induction s arbitrary: k)
  case Nil
  then show ?case by (auto simp: occurs_at_def first_occurrence_def positions_Nil)
next
  case (Cons c cs)
  have occ: "occurs_at p (c # cs) \<circ> Suc = occurs_at p cs"
    by (rule ext) (simp add: occurs_at_Cons)
  show ?case
    by (simp add: first_occurrence_def positions_Cons find_map occ Cons.IH [unfolded first_occurrence_def]
        startsWith_occurs split: option.splits)
qed

lemma lastIndexOf_from_find:
  "lastIndexOf_from s k p = (case last_occurrence p s of None \<Rightarrow> - 1 | Some i \<Rightarrow> int (k + i))"
proof (induction s arbitrary: k)
  case Nil
  then show ?case by (auto simp: occurs_at_def last_occurrence_def positions_Nil)
next
  case (Cons c cs)
  have occ: "occurs_at p (c # cs) \<circ> Suc = occurs_at p cs"
    by (rule ext) (simp add: occurs_at_Cons)
  show ?case
    by (simp add: last_occurrence_def positions_Cons find_map find_append rev_map occ
        Cons.IH [unfolded last_occurrence_def] startsWith_occurs Let_def split: option.splits)
qed

lemma indexOf_first: "indexOf s p = (case first_occurrence p s of None \<Rightarrow> - 1 | Some i \<Rightarrow> int i)"
  by (simp add: indexOf_def indexOf_from_find split: option.splits)

lemma lastIndexOf_last: "lastIndexOf s p = (case last_occurrence p s of None \<Rightarrow> - 1 | Some i \<Rightarrow> int i)"
  by (simp add: lastIndexOf_def lastIndexOf_from_find split: option.splits)


lemma nat_int_diff: "nat (int a - int b) = a - b"
  by arith

lemma slice_from: "slice s (int a) None = drop a s"
proof (cases "a \<le> length s")
  case True
  then have "min (int a) (int (length s)) = int a" by simp
  then show ?thesis using True by (simp add: slice_def Let_def nat_int_diff)
next
  case False
  then have "min (int a) (int (length s)) = int (length s)" by simp
  then show ?thesis using False by (simp add: slice_def Let_def)
qed

lemma slice_neg_end: "0 < k \<Longrightarrow> slice s 0 (Some (- int k)) = take (length s - k) s"
proof -
  assume k: "0 < k"
  have "max (int (length s) + - int k) 0 = int (length s - k)" by arith
  with k show ?thesis by (simp add: slice_def Let_def)
qed

lemma slice_nat:
  assumes "a \<le> b" "b \<le> length s"
  shows "slice s (int a) (Some (int b)) = take (b - a) (drop a s)"
proof -
  have "min (int a) (int (length s)) = int a" "min (int b) (int (length s)) = int b"
    using assms by simp_all
  then show ?thesis
    by (simp add: slice_def Let_def nat_int_diff)
qed

lemma length_str: "length (str s) = length s"
  by (simp add: str_def)

lemma whole_fence_cond:
  "(startsWith t (str ''```json'') \<and> endsWith t (str ''```'')) = strategy_applies WholeFence t"
  by (simp add: startsWith_occurs endsWith_occurs length_str eval_nat_numeral)

lemma whole_fence_content:
  "trim (slice (slice t 7 None) 0 (Some (- 3))) = strategy_interior WholeFence t"
  using slice_from [of t 7] slice_neg_end [of 3 "drop 7 t"] by simp

lemma brace_start_cond: "startsWith t (str ''{'') = strategy_applies BraceStart t"
  by (simp add: startsWith_occurs)

lemma last_occurrence_le: "last_occurrence p s = Some j \<Longrightarrow> j \<le> length s"
  by (auto simp: last_occurrence_def occurs_at_def dest!: find_Some_iff [THEN iffD1])

lemma fence_anywhere_cond:
  "(indexOf t (str ''```json'') \<noteq> - 1 \<and> lastIndexOf t (str ''```'') > indexOf t (str ''```json'') + 7)
     = strategy_applies FenceAnywhere t"
  by (auto simp: indexOf_first lastIndexOf_last split: option.splits)

lemma fence_anywhere_content:
  assumes "strategy_applies FenceAnywhere t"
  shows "trim (slice t (indexOf t (str ''```json'') + 7) (Some (lastIndexOf t (str ''```''))))
          = strategy_interior FenceAnywhere t"
proof -
  from assms obtain i j where i: "first_occurrence (str ''```json'') t = Some i"
    and j: "last_occurrence (str ''```'') t = Some j" and ij: "i + 7 < j"
    by (auto split: option.splits)
  have "j \<le> length t" using j by (rule last_occurrence_le)
  with ij have "slice t (int (i + 7)) (Some (int j)) = take (j - (i + 7)) (drop (i + 7) t)"
    by (intro slice_nat) simp_all
  then show ?thesis
    by (simp add: indexOf_first lastIndexOf_last i j)
qed

lemma parseClaudeCodeOutput_try_strategies:
  "parseClaudeCodeOutput_try output =
     (let t = trim output in
      if strategy_applies WholeFence t then JSON_parse (strategy_interior WholeFence t)
      else if strategy_applies BraceStart t then JSON_parse (strategy_interior BraceStart t)
      else if strategy_applies FenceAnywhere t then JSON_parse (strategy_interior FenceAnywhere t)
      else JSON_parse (strategy_interior Fallback t))"
proof -
  have "parseClaudeCodeOutput_try output =
     (let t = trim output in
      if strategy_applies WholeFence t then JSON_parse (strategy_interior WholeFence t)
      else if strategy_applies BraceStart t then JSON_parse t
      else if strategy_applies FenceAnywhere t then
        JSON_parse (trim (slice t (indexOf t (str ''```json'') + 7) (Some (lastIndexOf t (str ''```'')))))
      else JSON_parse t)"
    unfolding parseClaudeCodeOutput_try_def Let_def whole_fence_cond whole_fence_content
      brace_start_cond fence_anywhere_cond ..
  then show ?thesis
    by (simp add: Let_def fence_anywhere_content del: strategy_applies.simps strategy_interior.simps(1,3))
qed


subsection \<open>Parsing what was printed\<close>















lemma parse_string_raw:
  "c \<noteq> 0x22 \<Longrightarrow> c \<noteq> 0x5C \<Longrightarrow> \<not> c < 0x20 \<Longrightarrow>
   parse_string_chars (c # cs) = map_option (\<lambda>(x, r). (c # x, r)) (parse_string_chars cs)"
  by simp


lemma parse_string_escapes:
  "parse_string_chars (0x5C # 0x62 # cs) = map_option (\<lambda>(x, r). (0x08 # x, r)) (parse_string_chars cs)"
  "parse_string_chars (0x5C # 0x74 # cs) = map_option (\<lambda>(x, r). (0x09 # x, r)) (parse_string_chars cs)"
  "parse_string_chars (0x5C # 0x6E # cs) = map_option (\<lambda>(x, r). (0x0A # x, r)) (parse_string_chars cs)"
  "parse_string_chars (0x5C # 0x66 # cs) = map_option (\<lambda>(x, r). (0x0C # x, r)) (parse_string_chars cs)"
  "parse_string_chars (0x5C # 0x72 # cs) = map_option (\<lambda>(x, r). (0x0D # x, r)) (parse_string_chars cs)"
  "parse_string_chars (0x5C # 0x22 # cs) = map_option (\<lambda>(x, r). (0x22 # x, r)) (parse_string_chars cs)"
  "parse_string_chars (0x5C # 0x5C # cs) = map_option (\<lambda>(x, r). (0x5C # x, r)) (parse_string_chars cs)"
  by simp_all

lemma parse_string_quote: "parse_string_chars (0x22 # r) = Some ([], r)"
  by simp






































lemma join_single: "join sep [x] = x"
  by simp

lemma join_more: "join sep (x # y # ys) = x @ sep @ join sep (y # ys)"
  by simp
































subsection \<open>The order of the strategies\<close>

text \<open>
  C5, as the specification states it, fails: there the third strategy applies to every text
  in which a json-tagged fence occurs. The output \<open>"```json```"\<close> (a JSON string literal,
  quotes included) contains such a fence, directly followed by a closing fence, so the
  third strategy would decide and give no result; the code skips it, because the last
  fence does not start after the end of the opening one, and the fallback returns the
  string.
\<close>

theorem fence_anywhere_not_always_decisive:
  \<open>parseClaudeCodeOutput (str ''"```json```"'') = JStr (str ''```json```'') \<and>
   extract_by stated_applies (str ''"```json```"'') = JNull\<close>
  by code_simp

text \<open>
  C5, amended: \<open>parseClaudeCodeOutput\<close> applies the four strategies in the fixed order
  (the whole trimmed output is a json-tagged fenced block; it starts with a brace; a
  json-tagged fence occurs and the last fence marker of the text starts strictly after the
  end of the first json-tagged fence, the interior between the two being parsed; the
  fallback parses the whole trimmed text), and the first strategy that applies determines
  the result, also when its text does not parse.
\<close>

theorem extract_first_match:
  "parseClaudeCodeOutput output = extract_by strategy_applies output"
  by (simp add: parseClaudeCodeOutput_def parseClaudeCodeOutput_try_strategies extract_by_def Let_def
      del: strategy_applies.simps(1,2,3) strategy_interior.simps)

theorem extract_first_match_witness:
  \<open>parseClaudeCodeOutput (str ''{ ```json 1 ```'') =
     extract_by strategy_applies (str ''{ ```json 1 ```'') \<and>
   extract_by strategy_applies (str ''{ ```json 1 ```'') = JNull \<and>
   extract_by strategy_applies (str ''x ```json 1 ```'') = JNum 1\<close>
proof -
  have "extract_by strategy_applies (str ''{ ```json 1 ```'') = JNull"
    by code_simp
  moreover have "extract_by strategy_applies (str ''x ```json 1 ```'') = JNum 1"
    by code_simp
  ultimately show ?thesis
    using extract_first_match [of "str ''{ ```json 1 ```''"] by simp
qed

subsection \<open>No result instead of an exception\<close>

text \<open>
  C6: whenever the body of \<open>parseClaudeCodeOutput\<close> throws, and in particular whenever the
  text of every strategy fails to parse, the function returns \<open>null\<close>, its "no result"
  value; so it does for the inputs \<open>not json at all\<close> and for the unterminated fence
  \<open>```json\<close>, newline, \<open>{\<close>.
\<close>

theorem no_result_when_parsing_fails:
  "(parseClaudeCodeOutput_try output = Inl e \<longrightarrow> parseClaudeCodeOutput output = JNull) \<and>
   ((\<forall>k. isl (JSON_parse (strategy_interior k (trim output)))) \<longrightarrow>
      parseClaudeCodeOutput output = JNull) \<and>
   parseClaudeCodeOutput (str ''not json at all'') = JNull \<and>
   parseClaudeCodeOutput (str ''```json\<newline>{'') = JNull"
proof (intro conjI impI)
  assume "parseClaudeCodeOutput_try output = Inl e"
  then show "parseClaudeCodeOutput output = JNull"
    by (simp add: parseClaudeCodeOutput_def)
next
  assume all: "\<forall>k. isl (JSON_parse (strategy_interior k (trim output)))"
  have "isl (parseClaudeCodeOutput_try output)"
    unfolding parseClaudeCodeOutput_try_strategies Let_def using all by presburger
  then show "parseClaudeCodeOutput output = JNull"
    by (cases "parseClaudeCodeOutput_try output") (simp_all add: parseClaudeCodeOutput_def)
next
  show "parseClaudeCodeOutput (str ''not json at all'') = JNull"
    by code_simp
next
  show "parseClaudeCodeOutput (str ''```json\<newline>{'') = JNull"
    by code_simp
qed

theorem no_result_when_parsing_fails_witness:
  "parseClaudeCodeOutput_try (str ''not json at all'') = Inl SyntaxError \<and>
   (\<forall>k. isl (JSON_parse (strategy_interior k (trim (str ''not json at all''))))) \<and>
   parseClaudeCodeOutput (str ''not json at all'') = JNull"
proof -
  have a: "parseClaudeCodeOutput_try (str ''not json at all'') = Inl SyntaxError"
    by code_simp
  have b1: "isl (JSON_parse (strategy_interior WholeFence (trim (str ''not json at all''))))"
    by code_simp
  have b2: "isl (JSON_parse (strategy_interior BraceStart (trim (str ''not json at all''))))"
    by code_simp
  have b3: "isl (JSON_parse (strategy_interior FenceAnywhere (trim (str ''not json at all''))))"
    by code_simp
  have b4: "isl (JSON_parse (strategy_interior Fallback (trim (str ''not json at all''))))"
    by code_simp
  have b: "\<forall>k. isl (JSON_parse (strategy_interior k (trim (str ''not json at all''))))"
  proof
    fix k
    show "isl (JSON_parse (strategy_interior k (trim (str ''not json at all''))))"
      using b1 b2 b3 b4 by (cases k) blast+
  qed
  from a b no_result_when_parsing_fails [of "str ''not json at all''" SyntaxError]
  show ?thesis by blast
qed


subsection \<open>The round trip\<close>



section \<open>Properties of the Claude Code CLI service\<close>

lemma activeProcesses_log: "activeProcesses (log l m d w) = activeProcesses w"
  by (simp add: log_def)

lemma activeProcesses_setTimeout: "activeProcesses (setTimeout f ms w) = activeProcesses w"
  by (simp add: setTimeout_def)

lemma killed_log: "killed (log l m d w) = killed w"
  by (simp add: log_def)

lemma killed_setTimeout: "killed (setTimeout f ms w) = killed w"
  by (simp add: setTimeout_def)

lemma timeouts_log: "timeouts (log l m d w) = timeouts w"
  by (simp add: log_def)

subsection \<open>The offline placeholder\<close>

text \<open>
  C10: whatever the prompt, the timeout, the request identifier, the working directory,
  the model and the allowed tools are (and whatever the clock, the current directory and
  the state of the service), the one-shot execution and the streaming execution both
  return \<open>success = true\<close> with the same constant output, the serialised offline
  placeholder workflow, and no error.
\<close>

theorem offline_placeholder_result:
  "fst (executeClaudeCodeCLI now0 now1 cwd prompt timeoutMs requestId workingDirectory model
          allowedTools w) =
     \<lparr>success = True, result_output = Some mockOutput, error = None,
      executionTimeMs = min (now1 - now0) 1000\<rparr> \<and>
   fst (executeClaudeCodeCLIStreaming now0 now1 cwd prompt timeoutMs requestId workingDirectory
          model allowedTools w) =
     \<lparr>success = True, result_output = Some mockOutput, error = None,
      executionTimeMs = min (now1 - now0) 600\<rparr>"
  by (simp add: executeClaudeCodeCLI_def executeClaudeCodeCLIStreaming_def Let_def)

theorem offline_placeholder_result_witness:
  "result_output (fst (executeClaudeCodeCLI 1000 1002 (str ''/home'') (str ''make a workflow'') 60000
       (Some (str ''req-1'')) None Sonnet None
       \<lparr>activeProcesses = Map.empty, logged = [], killed = [], timeouts = []\<rparr>)) = Some mockOutput \<and>
   result_output (fst (executeClaudeCodeCLIStreaming 0 0 (str ''/'') [] (- 1) None (Some (str ''/tmp''))
       Haiku (Some [str ''Read''])
       \<lparr>activeProcesses = Map.empty, logged = [], killed = [], timeouts = []\<rparr>)) = Some mockOutput \<and>
   parseClaudeCodeOutput mockOutput = offline_workflow"
proof -
  have "parseClaudeCodeOutput mockOutput = offline_workflow"
    by code_simp
  then show ?thesis
    using offline_placeholder_result [of 1000 1002 "str ''/home''" "str ''make a workflow''" 60000
        "Some (str ''req-1'')" None Sonnet None
        "\<lparr>activeProcesses = Map.empty, logged = [], killed = [], timeouts = []\<rparr>"]
      offline_placeholder_result [of 0 0 "str ''/''" "[]" "- 1" None "Some (str ''/tmp'')" Haiku
        "Some [str ''Read'']"
        "\<lparr>activeProcesses = Map.empty, logged = [], killed = [], timeouts = []\<rparr>"]
    by simp
qed

subsection \<open>Cancelling a request that is not registered\<close>

text \<open>
  C7: for a request identifier without an entry in the registry, \<open>cancelGeneration\<close> and
  \<open>cancelRefinement\<close> throw nothing and return \<open>cancelled = false\<close> without an elapsed
  time; the registry stays as it is, no process is signalled and no timer is set (a
  warning is logged).
\<close>

theorem cancel_unknown_request:
  assumes "activeProcesses w requestId = None"
  shows "\<exists>w1 w2.
           cancelGeneration now requestId w =
             Inr (\<lparr>cancelled = False, cancel_executionTimeMs = None\<rparr>, w1) \<and>
           cancelRefinement now requestId w =
             Inr (\<lparr>cancelled = False, cancel_executionTimeMs = None\<rparr>, w2) \<and>
           activeProcesses w1 = activeProcesses w \<and> activeProcesses w2 = activeProcesses w \<and>
           killed w1 = killed w \<and> killed w2 = killed w \<and>
           timeouts w1 = timeouts w \<and> timeouts w2 = timeouts w"
  using assms
  by (simp add: cancelGeneration_def cancelRefinement_def activeProcesses_log killed_log timeouts_log)

theorem cancel_unknown_request_witness:
  "activeProcesses \<lparr>activeProcesses = Map.empty, logged = [], killed = [], timeouts = []\<rparr>
     (str ''req-1'') = None \<and>
   (\<exists>w1. cancelGeneration 5 (str ''req-1'')
            \<lparr>activeProcesses = Map.empty, logged = [], killed = [], timeouts = []\<rparr> =
          Inr (\<lparr>cancelled = False, cancel_executionTimeMs = None\<rparr>, w1))"
proof -
  have a: "activeProcesses \<lparr>activeProcesses = Map.empty, logged = [], killed = [], timeouts = []\<rparr>
     (str ''req-1'') = None"
    by simp
  from cancel_unknown_request [OF a, of 5] show ?thesis
    using a by blast
qed

subsection \<open>Starting a generation and the registry\<close>

text \<open>
  C2 fails as stated. After a generation was started for the request \<open>req-1\<close> the
  registry holds no record for it, and a generation started for a request that is
  registered already does not fail.
\<close>

theorem generation_is_not_registered:
  "activeProcesses (snd (executeClaudeCodeCLI 1000 1002 (str ''/home'') (str ''make a workflow'') 60000
       (Some (str ''req-1'')) None Sonnet None
       \<lparr>activeProcesses = Map.empty, logged = [], killed = [], timeouts = []\<rparr>)) (str ''req-1'') = None \<and>
   success (fst (executeClaudeCodeCLI 1000 1002 (str ''/home'') (str ''make a workflow'') 60000
       (Some (str ''req-1'')) None Sonnet None
       \<lparr>activeProcesses =
          [str ''req-1'' \<mapsto> \<lparr>subprocess = \<lparr>nodeChildProcess = Inr 7\<rparr>, startTime = 900\<rparr>],
        logged = [], killed = [], timeouts = []\<rparr>))"
  by (simp add: executeClaudeCodeCLI_def Let_def activeProcesses_log)

text \<open>
  C2, amended: starting a generation, one-shot or streaming, registers nothing and never
  fails: the registry is after the call what it was before, also for a request
  identifier that is registered already (no SpawnError). The registry maps a request
  identifier to at most one record at any instant.
\<close>

theorem generation_leaves_registry:
  "activeProcesses (snd (executeClaudeCodeCLI now0 now1 cwd prompt timeoutMs requestId
       workingDirectory model allowedTools w)) = activeProcesses w \<and>
   activeProcesses (snd (executeClaudeCodeCLIStreaming now0 now1 cwd prompt timeoutMs requestId
       workingDirectory model allowedTools w)) = activeProcesses w \<and>
   success (fst (executeClaudeCodeCLI now0 now1 cwd prompt timeoutMs requestId
       workingDirectory model allowedTools w)) \<and>
   success (fst (executeClaudeCodeCLIStreaming now0 now1 cwd prompt timeoutMs requestId
       workingDirectory model allowedTools w)) \<and>
   (activeProcesses w r = Some p \<and> activeProcesses w r = Some q \<longrightarrow> p = q)"
  by (auto simp: executeClaudeCodeCLI_def executeClaudeCodeCLIStreaming_def Let_def
      activeProcesses_log activeProcesses_setTimeout)

theorem generation_leaves_registry_witness:
  "activeProcesses (snd (executeClaudeCodeCLI 1000 1002 (str ''/home'') (str ''make a workflow'') 60000
       (Some (str ''req-1'')) None Sonnet None
       \<lparr>activeProcesses =
          [str ''req-1'' \<mapsto> \<lparr>subprocess = \<lparr>nodeChildProcess = Inr 7\<rparr>, startTime = 900\<rparr>],
        logged = [], killed = [], timeouts = []\<rparr>)) (str ''req-1'') =
     Some \<lparr>subprocess = \<lparr>nodeChildProcess = Inr 7\<rparr>, startTime = 900\<rparr>"
  using generation_leaves_registry [of 1000 1002 "str ''/home''" "str ''make a workflow''" 60000
      "Some (str ''req-1'')" None Sonnet None
      "\<lparr>activeProcesses =
          [str ''req-1'' \<mapsto> \<lparr>subprocess = \<lparr>nodeChildProcess = Inr 7\<rparr>, startTime = 900\<rparr>],
        logged = [], killed = [], timeouts = []\<rparr>"]
  by simp

subsection \<open>The requested timeout\<close>




section \<open>Properties of the workflow commands\<close>

subsection \<open>Loading: the precedence of the storage roots\<close>

text \<open>
  C1 (the code departs from it): in offline mode \<open>loadWorkflow\<close> never looks into the
  workspace directory \<open>.vscode/workflows\<close>. Here the workflow \<open>w\<close> exists in the
  workspace directory only; the three-tier search would find it there as a last resort,
  the code answers that it is nowhere. The path of the first and of the third look-up
  both come from \<open>getWorkflowFilePath\<close>, which resolves against the current storage
  directory, and the third look-up stands in the \<open>else\<close> branch of the offline test.
\<close>

theorem load_offline_misses_workspace_root:
  \<open>loadWorkflow offlineConfig Inr example_service
     (disk_of [(str ''/ws/.vscode/workflows'', [(str ''w.json'', str ''{"name":"w"}'')])])
     (str ''w'') (Some (str ''r1'')) =
   ERROR (Some (str ''r1'')) (str ''LOAD_FAILED'')
     (Message (str ''Workflow "w" not found in any storage location''))\<close>
  by code_simp

subsection \<open>Listing: one entry per name\<close>

text \<open>
  C8 (the code departs from it): in offline mode all three scans of \<open>loadWorkflowList\<close>
  read the offline directory, because \<open>getWorkflowsDirectory\<close> gives the current storage
  directory for the scan of the workspace too. With root A, the offline directory,
  holding \<open>x\<close> and \<open>y\<close>, and root B, the workspace directory, holding \<open>y\<close> and \<open>z\<close>, the
  listing has \<open>x\<close> and \<open>y\<close> of A, and \<open>z\<close> is missing.
\<close>

theorem listing_offline_misses_workspace_root:
  \<open>loadWorkflowList offlineConfig example_service
     (disk_of
       [(str ''/home/u/.yougao/workflows'',
           [(str ''x.json'', str ''{"name":"x of A","updatedAt":"2024-01-01"}''),
            (str ''y.json'', str ''{"name":"y of A","updatedAt":"2024-06-01"}'')]),
        (str ''/ws/.vscode/workflows'',
           [(str ''y.json'', str ''{"name":"y of B","updatedAt":"2024-05-01"}''),
            (str ''z.json'', str ''{"name":"z of B","updatedAt":"2024-03-01"}'')])])
     (str ''2024-07-01T00:00:00.000Z'') None =
   WORKFLOW_LIST_LOADED None
     [\<lparr>id' = str ''y'', name = JStr (str ''y of A''), description = None,
       updatedAt = JStr (str ''2024-06-01''), source = None\<rparr>,
      \<lparr>id' = str ''x'', name = JStr (str ''x of A''), description = None,
       updatedAt = JStr (str ''2024-01-01''), source = None\<rparr>]\<close>
  by code_simp

subsection \<open>Listing: newest first\<close>

text \<open>
  C9 (the code departs from it): the listing is not newest first for every set of
  documents. An \<open>updatedAt\<close> that is not a date makes the comparator \<open>dateB - dateA\<close>
  return NaN, which the sort reads as "equal"; the code has no guard for it, although
  its comment says that the list is sorted by update time, newest first. With the
  documents \<open>a\<close> of 2024-01-01, \<open>b\<close> with the \<open>updatedAt\<close> \<open>unknown\<close> and \<open>c\<close> of
  2024-06-01, scanned in this order, the listing is \<open>a\<close>, \<open>b\<close>, \<open>c\<close>: the oldest document
  comes first and the newest last.
\<close>

theorem listing_with_unreadable_date:
  \<open>loadWorkflowList offlineConfig example_service
     (disk_of
       [(str ''/home/u/.yougao/workflows'',
           [(str ''a.json'', str ''{"name":"a","updatedAt":"2024-01-01"}''),
            (str ''b.json'', str ''{"name":"b","updatedAt":"unknown"}''),
            (str ''c.json'', str ''{"name":"c","updatedAt":"2024-06-01"}'')])])
     (str ''2024-07-01T00:00:00.000Z'') None =
   WORKFLOW_LIST_LOADED None
     [\<lparr>id' = str ''a'', name = JStr (str ''a''), description = None,
       updatedAt = JStr (str ''2024-01-01''), source = None\<rparr>,
      \<lparr>id' = str ''b'', name = JStr (str ''b''), description = None,
       updatedAt = JStr (str ''unknown''), source = None\<rparr>,
      \<lparr>id' = str ''c'', name = JStr (str ''c''), description = None,
       updatedAt = JStr (str ''2024-06-01''), source = None\<rparr>] \<and>
   Date_getTime (JStr (str ''2024-01-01'')) = Some 1704067200000 \<and>
   Date_getTime (JStr (str ''unknown'')) = None \<and>
   Date_getTime (JStr (str ''2024-06-01'')) = Some 1717200000000\<close>
  by code_simp


end
